theory Spec2Isabelle
  imports Complex_Main
begin

section \<open>The Sense energy-monitor sensor platform\<close>

text \<open>
  A shallow embedding of \<^verbatim>\<open>homeassistant/components/sense/sensor.py\<close>.
  The entity class \<^verbatim>\<open>Sense\<close> is a record, the two closures that
  \<^verbatim>\<open>async_setup_entry\<close> hands to the entities are the constructors of a
  datatype, and everything the entities share (the \<^verbatim>\<open>data\<close> object of the
  wrapped library, the time stamp kept by the throttle, the logger) is one record that
  every operation takes and returns.
\<close>

subsection \<open>Python values and builtins\<close>

text \<open>
  Readings are Python numbers: integers or floats.  A float is modelled as a rational:
  every finite float is one, and the claims only depend on which reading is rounded, not
  on the binary representation of the result.  On a float, \<^verbatim>\<open>round(x)\<close> rounds
  to the nearest integer, a tie going to the even one, and \<^verbatim>\<open>round(x, n)\<close> does
  the same at the n-th decimal and gives a float.  On an integer, \<^verbatim>\<open>round(x)\<close>
  and \<^verbatim>\<open>round(x, n)\<close> with n not negative give the integer itself.
\<close>

datatype pynum = IntNum int | FloatNum rat

definition py_round :: "rat \<Rightarrow> int" where
  "py_round x =
     (let f = \<lfloor>x\<rfloor>; d = x - of_int f
      in if d < 1 / 2 then f
         else if 1 / 2 < d then f + 1
         else if even f then f else f + 1)"

definition py_round_ndigits :: "rat \<Rightarrow> nat \<Rightarrow> rat" where
  "py_round_ndigits x n = of_int (py_round (x * 10 ^ n)) / 10 ^ n"

definition round_number :: "pynum \<Rightarrow> int" where
  "round_number x = (case x of IntNum i \<Rightarrow> i | FloatNum f \<Rightarrow> py_round f)"

definition round_number_ndigits :: "pynum \<Rightarrow> nat \<Rightarrow> pynum" where
  "round_number_ndigits x n =
     (case x of IntNum i \<Rightarrow> IntNum i | FloatNum f \<Rightarrow> FloatNum (py_round_ndigits f n))"

text \<open>
  \<^verbatim>\<open>str.lower()\<close>, on strings of one-byte characters: the letters A to Z are
  mapped to a to z and every other character is kept.
\<close>

definition lower_char :: "char \<Rightarrow> char" where
  "lower_char c =
     (let n = (of_char c :: nat)
      in if 65 \<le> n \<and> n \<le> 90 then char_of (n + 32) else c)"

definition lower :: "string \<Rightarrow> string" where
  "lower s = map lower_char s"

subsection \<open>Constants\<close>

definition ACTIVE_NAME :: string where
  "ACTIVE_NAME = ''Energy''"

definition ACTIVE_TYPE :: string where
  "ACTIVE_TYPE = ''active''"

definition CONSUMPTION_NAME :: string where
  "CONSUMPTION_NAME = ''Usage''"

definition ICON :: string where
  "ICON = ''mdi:flash''"

text \<open>\<^verbatim>\<open>timedelta(seconds=300)\<close>; times and durations are counted in seconds.\<close>

definition MIN_TIME_BETWEEN_DAILY_UPDATES :: rat where
  "MIN_TIME_BETWEEN_DAILY_UPDATES = 300"

definition PRODUCTION_NAME :: string where
  "PRODUCTION_NAME = ''Production''"

text \<open>
  Modelled from the spec: the two unit constants are imported from
  \<^verbatim>\<open>homeassistant.const\<close>, which is not among the sources.  They are the unit
  of power and the unit of energy that the entities report.
\<close>

definition POWER_WATT :: string where
  "POWER_WATT = ''W''"

definition ENERGY_KILO_WATT_HOUR :: string where
  "ENERGY_KILO_WATT_HOUR = ''kWh''"

record SensorConfig =
  config_name :: string
  config_sensor_type :: string

text \<open>
  The dictionary \<^verbatim>\<open>SENSOR_TYPES\<close>, as an association list in the order of the
  literal: a Python dictionary is iterated in insertion order.
\<close>

definition SENSOR_TYPES :: "(string \<times> SensorConfig) list" where
  "SENSOR_TYPES =
     [(''active'', \<lparr>config_name = ACTIVE_NAME, config_sensor_type = ACTIVE_TYPE\<rparr>),
      (''daily'', \<lparr>config_name = ''Daily'', config_sensor_type = ''DAY''\<rparr>),
      (''weekly'', \<lparr>config_name = ''Weekly'', config_sensor_type = ''WEEK''\<rparr>),
      (''monthly'', \<lparr>config_name = ''Monthly'', config_sensor_type = ''MONTH''\<rparr>),
      (''yearly'', \<lparr>config_name = ''Yearly'', config_sensor_type = ''YEAR''\<rparr>)]"

definition SENSOR_VARIANTS :: "string list" where
  "SENSOR_VARIANTS = [lower PRODUCTION_NAME, lower CONSUMPTION_NAME]"

subsection \<open>The shared state\<close>

text \<open>
  The exceptions the external calls can raise.  \<^verbatim>\<open>SenseAPITimeoutException\<close> is the
  class the \<^verbatim>\<open>except\<close> clause of \<^verbatim>\<open>async_update\<close> names; every other
  exception is told apart by the name of its class.
\<close>

datatype exn =
    SenseAPITimeoutException
  | SenseAuthenticationException
  | OtherException string

text \<open>
  The object \<^verbatim>\<open>data\<close> of the wrapped library, as far as the platform reads it:
  the two realtime attributes, the method \<^verbatim>\<open>get_trend\<close> and the monitor id.
\<close>

record sense_data =
  active_power :: pynum
  active_solar_power :: pynum
  get_trend :: "string \<Rightarrow> bool \<Rightarrow> pynum"
  sense_monitor_id :: string

datatype api_call = update_realtime | update_trend_data

text \<open>
  What an external call does when it is made: it raises, or it returns after having
  refreshed the \<^verbatim>\<open>data\<close> object.
\<close>

datatype api_result = Raise exn | Return sense_data

text \<open>
  The state shared by the entities of one config entry: the \<^verbatim>\<open>data\<close> object,
  the time of the last call that the throttle of \<^verbatim>\<open>update_trends\<close> let through
  (none before the first), the external calls made so far with the time they were made
  at (oldest first), and the records written to the logger.
\<close>

record world =
  data :: sense_data
  throttle :: "rat option"
  api_calls :: "(api_call \<times> rat) list"
  error_log :: "string list"

text \<open>
  An external call is recorded with the time it is made at.  A call that raises is taken
  to leave the \<^verbatim>\<open>data\<close> object as it was.
\<close>

definition call_api :: "api_call \<Rightarrow> rat \<Rightarrow> api_result \<Rightarrow> world \<Rightarrow> exn option \<times> world" where
  "call_api c now r w =
     (case r of
        Raise e \<Rightarrow> (Some e, w\<lparr>api_calls := api_calls w @ [(c, now)]\<rparr>)
      | Return d \<Rightarrow> (None, w\<lparr>data := d, api_calls := api_calls w @ [(c, now)]\<rparr>))"

text \<open>
  Modelled from the spec: the decorator \<^verbatim>\<open>Throttle\<close> of
  \<^verbatim>\<open>homeassistant.util\<close> is not among the sources.  The spec says that updates are
  throttled on a timer.  A call of the decorated function is let through when no call
  was let through before, or when more than \<^verbatim>\<open>min_time\<close> has passed since the
  last one that was; the time of the call is then recorded, whether the function goes on
  to raise or not.  Any other call returns at once, without running the function and
  without raising.
\<close>

definition Throttle ::
  "rat \<Rightarrow> (rat \<Rightarrow> api_result \<Rightarrow> world \<Rightarrow> exn option \<times> world) \<Rightarrow>
   rat \<Rightarrow> api_result \<Rightarrow> world \<Rightarrow> exn option \<times> world" where
  "Throttle min_time method now r w =
     (case throttle w of
        None \<Rightarrow> method now r (w\<lparr>throttle := Some now\<rparr>)
      | Some last_call \<Rightarrow>
          if min_time < now - last_call then method now r (w\<lparr>throttle := Some now\<rparr>)
          else (None, w))"

text \<open>The two closures defined in \<^verbatim>\<open>async_setup_entry\<close>.\<close>

definition update_trends :: "rat \<Rightarrow> api_result \<Rightarrow> world \<Rightarrow> exn option \<times> world" where
  "update_trends = Throttle MIN_TIME_BETWEEN_DAILY_UPDATES (call_api update_trend_data)"

definition update_active :: "rat \<Rightarrow> api_result \<Rightarrow> world \<Rightarrow> exn option \<times> world" where
  "update_active = call_api update_realtime"

datatype update_call = UpdateActive | UpdateTrends

fun invoke :: "update_call \<Rightarrow> rat \<Rightarrow> api_result \<Rightarrow> world \<Rightarrow> exn option \<times> world" where
  "invoke UpdateActive = update_active"
| "invoke UpdateTrends = update_trends"

subsection \<open>The entity\<close>

datatype state_value = StateNone | StateInt int | StateFloat rat

definition number_state :: "pynum \<Rightarrow> state_value" where
  "number_state x = (case x of IntNum i \<Rightarrow> StateInt i | FloatNum f \<Rightarrow> StateFloat f)"

text \<open>
  The attributes of a \<^verbatim>\<open>Sense\<close> object.  The attribute \<^verbatim>\<open>_data\<close> is a
  reference to the shared \<^verbatim>\<open>data\<close> object and is read from the shared state.
\<close>

record Sense =
  name :: string
  unique_id :: string
  available :: bool
  sensor_type :: string
  update_sensor :: update_call
  is_production :: bool
  state :: state_value
  unit_of_measurement :: string

definition Sense_init ::
  "string \<Rightarrow> string \<Rightarrow> bool \<Rightarrow> update_call \<Rightarrow> string \<Rightarrow> string \<Rightarrow> Sense" where
  "Sense_init nm styp is_prod upd sensor_id uid =
     (let name_type = (if is_prod then PRODUCTION_NAME else CONSUMPTION_NAME)
      in \<lparr>name = nm @ '' '' @ name_type,
          unique_id = uid,
          available = False,
          sensor_type = styp,
          update_sensor = upd,
          is_production = is_prod,
          state = StateNone,
          unit_of_measurement =
            (if styp = ACTIVE_TYPE then POWER_WATT else ENERGY_KILO_WATT_HOUR)\<rparr>)"

definition icon :: "Sense \<Rightarrow> string" where
  "icon s = ICON"

text \<open>How a call of \<^verbatim>\<open>async_update\<close> ends: it returns, or an exception leaves it.\<close>

datatype outcome = Returned | Raised exn

text \<open>The reading that \<^verbatim>\<open>async_update\<close> stores, taken from the \<^verbatim>\<open>data\<close> object.\<close>

definition reading :: "Sense \<Rightarrow> sense_data \<Rightarrow> state_value" where
  "reading s d =
     (if sensor_type s = ACTIVE_TYPE then
        (if is_production s then StateInt (round_number (active_solar_power d))
         else StateInt (round_number (active_power d)))
      else number_state
             (round_number_ndigits (get_trend d (sensor_type s) (is_production s)) 1))"

definition async_update ::
  "rat \<Rightarrow> api_result \<Rightarrow> Sense \<Rightarrow> world \<Rightarrow> outcome \<times> Sense \<times> world" where
  "async_update now r s w =
     (case invoke (update_sensor s) now r w of
        (Some e, w') \<Rightarrow>
          if e = SenseAPITimeoutException
          then (Returned, s, w'\<lparr>error_log := error_log w' @ [''Timeout retrieving data'']\<rparr>)
          else (Raised e, s, w')
      | (None, w') \<Rightarrow>
          (Returned, s\<lparr>state := reading s (data w'), available := True\<rparr>, w'))"

subsection \<open>Setting the platform up\<close>

definition make_sensor :: "string \<Rightarrow> string \<times> SensorConfig \<Rightarrow> string \<Rightarrow> Sense" where
  "make_sensor monitor_id typ var =
     (let nm = config_name (snd typ);
          styp = config_sensor_type (snd typ);
          is_prod = (var = lower PRODUCTION_NAME);
          upd = (if styp = ACTIVE_TYPE then UpdateActive else UpdateTrends);
          uid = lower (monitor_id @ ''-'' @ fst typ @ ''-'' @ var)
      in Sense_init nm styp is_prod upd var uid)"

text \<open>
  The list \<^verbatim>\<open>devices\<close> that \<^verbatim>\<open>async_setup_entry\<close> passes to
  \<^verbatim>\<open>async_add_entities\<close>: the outer loop runs over the sensor types, the inner one
  over the variants.
\<close>

definition async_setup_entry :: "sense_data \<Rightarrow> Sense list" where
  "async_setup_entry d =
     concat (map (\<lambda>typ. map (make_sensor (sense_monitor_id d) typ) SENSOR_VARIANTS)
                 SENSOR_TYPES)"

text \<open>The shared state right after the setup: nothing was fetched and nothing logged.\<close>

definition initial_world :: "sense_data \<Rightarrow> world" where
  "initial_world d = \<lparr>data = d, throttle = None, api_calls = [], error_log = []\<rparr>"

text \<open>
  The host polls the entities one at a time.  A poll names the entity by its position in
  the list, the time of the poll, and what the external call does if it is made.  An
  exception that leaves \<^verbatim>\<open>async_update\<close> is the host's to handle; the entity is
  as the call left it.
\<close>

record platform =
  entities :: "Sense list"
  shared :: world

definition poll :: "platform \<Rightarrow> nat \<times> rat \<times> api_result \<Rightarrow> platform" where
  "poll p ev =
     (case ev of (i, now, r) \<Rightarrow>
        if i < length (entities p) then
          (case async_update now r (entities p ! i) (shared p) of
             (out, s', w') \<Rightarrow> \<lparr>entities = (entities p)[i := s'], shared = w'\<rparr>)
        else p)"

definition run :: "platform \<Rightarrow> (nat \<times> rat \<times> api_result) list \<Rightarrow> platform" where
  "run p evs = foldl poll p evs"

definition initial_platform :: "sense_data \<Rightarrow> platform" where
  "initial_platform d = \<lparr>entities = async_setup_entry d, shared = initial_world d\<rparr>"

section \<open>The Reddit sensor platform\<close>

text \<open>
  Of the Reddit platform only its test module,
  \<^verbatim>\<open>tests/components/reddit/test_sensor.py\<close>, is among the sources.  The
  configurations, the mocked response and the mocked library are translated from the
  test module; the platform under test is modelled from the spec.
\<close>

subsection \<open>The test module: configurations and the mocked library\<close>

text \<open>The values found in a response: the mocked ids are integers, the rest strings.\<close>

datatype pyval = PyInt int | PyStr string

text \<open>
  A post as the library returns it: an object with the attributes
  \<^verbatim>\<open>id\<close>, \<^verbatim>\<open>url\<close>, \<^verbatim>\<open>title\<close>, \<^verbatim>\<open>score\<close>,
  \<^verbatim>\<open>num_comments\<close>, \<^verbatim>\<open>created\<close> and \<^verbatim>\<open>selftext\<close>
  (\<^verbatim>\<open>ObjectView\<close> in the test module).
\<close>

record submission =
  id' :: pyval
  url :: pyval
  title :: pyval
  score :: pyval
  num_comments :: pyval
  created :: pyval
  selftext :: pyval

definition MOCK_RESULTS :: "submission list" where
  "MOCK_RESULTS =
     [\<lparr>id' = PyInt 0, url = PyStr ''http://example.com/1'', title = PyStr ''example1'',
       score = PyStr ''1'', num_comments = PyStr ''1'', created = PyStr '''',
       selftext = PyStr ''example1 selftext''\<rparr>,
      \<lparr>id' = PyInt 1, url = PyStr ''http://example.com/2'', title = PyStr ''example2'',
       score = PyStr ''2'', num_comments = PyStr ''2'', created = PyStr '''',
       selftext = PyStr ''example2 selftext''\<rparr>]"

definition MOCK_RESULTS_LENGTH :: nat where
  "MOCK_RESULTS_LENGTH = length MOCK_RESULTS"

text \<open>\<^verbatim>\<open>MockSubreddit._return_data\<close>: the first \<^verbatim>\<open>limit\<close> results.\<close>

definition return_data :: "submission list \<Rightarrow> nat \<Rightarrow> submission list" where
  "return_data results limit = take limit results"

text \<open>
  A subreddit of the library, seen through \<^verbatim>\<open>hasattr\<close> and
  \<^verbatim>\<open>getattr\<close>: a listing method for each name the object has, nothing for any
  other name.  The library itself maps the name of a subreddit to such an object.
\<close>

type_synonym subreddit_object = "string \<Rightarrow> (nat \<Rightarrow> submission list) option"

definition MockSubreddit :: "string \<Rightarrow> submission list \<Rightarrow> subreddit_object" where
  "MockSubreddit sub results method =
     (if method = ''top'' then Some (return_data results)
      else if method = ''controversial'' then Some (return_data results)
      else if method = ''hot'' then Some (return_data results)
      else if method = ''new'' then Some (return_data results)
      else None)"

definition MockPraw :: "string \<Rightarrow> subreddit_object" where
  "MockPraw sub = MockSubreddit sub MOCK_RESULTS"

text \<open>
  The platform's part of a configuration.  The sort mode and the maximum are optional
  keys.
\<close>

record reddit_config =
  conf_client_id :: string
  conf_client_secret :: string
  conf_username :: string
  conf_password :: string
  conf_subreddits :: "string list"
  conf_sort_by :: "string option"
  conf_maximum :: "nat option"

definition VALID_CONFIG :: reddit_config where
  "VALID_CONFIG =
     \<lparr>conf_client_id = ''test_client_id'', conf_client_secret = ''test_client_secret'',
      conf_username = ''test_username'', conf_password = ''test_password'',
      conf_subreddits = [''worldnews'', ''news''],
      conf_sort_by = None, conf_maximum = None\<rparr>"

definition VALID_LIMITED_CONFIG :: reddit_config where
  "VALID_LIMITED_CONFIG =
     \<lparr>conf_client_id = ''test_client_id'', conf_client_secret = ''test_client_secret'',
      conf_username = ''test_username'', conf_password = ''test_password'',
      conf_subreddits = [''worldnews'', ''news''],
      conf_sort_by = None, conf_maximum = Some 1\<rparr>"

definition INVALID_SORT_BY_CONFIG :: reddit_config where
  "INVALID_SORT_BY_CONFIG =
     \<lparr>conf_client_id = ''test_client_id'', conf_client_secret = ''test_client_secret'',
      conf_username = ''test_username'', conf_password = ''test_password'',
      conf_subreddits = [''worldnews'', ''news''],
      conf_sort_by = Some ''invalid_sort_by'', conf_maximum = None\<rparr>"

subsection \<open>The platform\<close>

text \<open>
  Modelled from the spec: the module \<^verbatim>\<open>homeassistant/components/reddit/sensor.py\<close>
  is not among the sources.  The test module imports the names of its attributes; they
  are the constructors below.  A post is exposed as a dictionary with one entry for each
  of the seven attributes.
\<close>

datatype attr =
    ATTR_ID | ATTR_URL | ATTR_TITLE | ATTR_SCORE | ATTR_COMMENTS_NUMBER
  | ATTR_CREATED | ATTR_BODY

type_synonym post = "(attr \<times> pyval) list"

text \<open>
  Modelled from the spec: the recognized sort modes, and the values taken when the
  optional keys are left out.  The modes are the listings the library offers; the test
  module expects the mode \<^verbatim>\<open>hot\<close> when none is configured, and both mocked
  posts when no maximum is, so the default maximum is at least two.
\<close>

definition LIST_TYPES :: "string list" where
  "LIST_TYPES = [''top'', ''controversial'', ''hot'', ''new'']"

definition DEFAULT_SORT_BY :: string where
  "DEFAULT_SORT_BY = ''hot''"

definition DEFAULT_MAXIMUM :: nat where
  "DEFAULT_MAXIMUM = 10"

text \<open>
  Modelled from the spec: a post copied field by field from the library's response
  (``copy field A from the response into attribute B'').
\<close>

definition post_of_submission :: "submission \<Rightarrow> post" where
  "post_of_submission s =
     [(ATTR_ID, id' s), (ATTR_URL, url s), (ATTR_TITLE, title s), (ATTR_SCORE, score s),
      (ATTR_COMMENTS_NUMBER, num_comments s), (ATTR_CREATED, created s),
      (ATTR_BODY, selftext s)]"

text \<open>
  Modelled from the spec: the entity of one subreddit.  Its state is the number of
  posts it holds; its attributes are the subreddit, the posts and the sort mode.
\<close>

record RedditSensor =
  subreddit :: string
  limit :: nat
  sort_by :: string
  subreddit_data :: "post list"

definition RedditSensor_init :: "string \<Rightarrow> nat \<Rightarrow> string \<Rightarrow> RedditSensor" where
  "RedditSensor_init sub lmt mode =
     \<lparr>subreddit = sub, limit = lmt, sort_by = mode, subreddit_data = []\<rparr>"

definition RedditSensor_name :: "RedditSensor \<Rightarrow> string" where
  "RedditSensor_name s = ''reddit_'' @ subreddit s"

definition RedditSensor_state :: "RedditSensor \<Rightarrow> nat" where
  "RedditSensor_state s = length (subreddit_data s)"

text \<open>
  Modelled from the spec: a poll asks the library for the listing of the configured
  mode, with the configured limit, and copies every post returned.
\<close>

definition RedditSensor_update ::
  "(string \<Rightarrow> subreddit_object) \<Rightarrow> RedditSensor \<Rightarrow> RedditSensor" where
  "RedditSensor_update reddit s =
     (case reddit (subreddit s) (sort_by s) of
        None \<Rightarrow> s\<lparr>subreddit_data := []\<rparr>
      | Some listing \<Rightarrow> s\<lparr>subreddit_data := map post_of_submission (listing (limit s))\<rparr>)"

datatype config_error = InvalidSortBy string

text \<open>
  Modelled from the spec: the validity check of the configuration (``rejecting an
  unrecognized sort-order string'') and the setup, which creates one entity for each
  configured subreddit and polls it once.
\<close>

definition validate_config :: "reddit_config \<Rightarrow> config_error + string \<times> nat" where
  "validate_config c =
     (let mode = (case conf_sort_by c of None \<Rightarrow> DEFAULT_SORT_BY | Some m \<Rightarrow> m);
          lmt = (case conf_maximum c of None \<Rightarrow> DEFAULT_MAXIMUM | Some n \<Rightarrow> n)
      in if mode \<in> set LIST_TYPES then Inr (mode, lmt) else Inl (InvalidSortBy mode))"

definition setup_platform ::
  "(string \<Rightarrow> subreddit_object) \<Rightarrow> reddit_config \<Rightarrow> config_error + RedditSensor list" where
  "setup_platform reddit c =
     (case validate_config c of
        Inl e \<Rightarrow> Inl e
      | Inr (mode, lmt) \<Rightarrow>
          Inr (map (\<lambda>sub. RedditSensor_update reddit (RedditSensor_init sub lmt mode))
                   (conf_subreddits c)))"

text \<open>
  Modelled from the spec: what the host's state machine holds after the setup, by
  entity id.  A rejected configuration adds no entity.
\<close>

record entity_state =
  state_of :: nat
  attr_subreddit :: string
  attr_posts :: "post list"
  attr_sort_by :: string

definition entity_id :: "RedditSensor \<Rightarrow> string" where
  "entity_id s = ''sensor.'' @ RedditSensor_name s"

definition state_entry :: "RedditSensor \<Rightarrow> string \<times> entity_state" where
  "state_entry s =
     (entity_id s,
      \<lparr>state_of = RedditSensor_state s, attr_subreddit = subreddit s,
       attr_posts = subreddit_data s, attr_sort_by = sort_by s\<rparr>)"

definition setup_component ::
  "(string \<Rightarrow> subreddit_object) \<Rightarrow> reddit_config \<Rightarrow> (string \<times> entity_state) list" where
  "setup_component reddit c =
     (case setup_platform reddit c of
        Inl e \<Rightarrow> []
      | Inr sensors \<Rightarrow> map state_entry sensors)"

definition states_get :: "(string \<times> entity_state) list \<Rightarrow> string \<Rightarrow> entity_state option" where
  "states_get states eid = map_of states eid"

section \<open>Sample inputs\<close>

text \<open>
  Concrete values at which the theorems below are instantiated: a \<^verbatim>\<open>data\<close>
  object after a fetch, and one that holds nothing yet, whose attributes are the integer
  zero.
\<close>

definition sample_data :: sense_data where
  "sample_data =
     \<lparr>active_power = FloatNum (2469 / 2), active_solar_power = FloatNum (7 / 2),
      get_trend =
        (\<lambda>scale prod. if scale = ''DAY'' \<and> \<not> prod then FloatNum (1 / 4) else FloatNum 10),
      sense_monitor_id = ''Ab1''\<rparr>"

definition stale_data :: sense_data where
  "stale_data =
     \<lparr>active_power = IntNum 0, active_solar_power = IntNum 0,
      get_trend = (\<lambda>scale prod. IntNum 0),
      sense_monitor_id = ''Ab1''\<rparr>"

text \<open>
  The platform after one poll of the daily usage sensor, at time 0, in which the external
  call timed out: nothing was fetched, and the throttle has recorded the call.
\<close>

definition timed_out_platform :: platform where
  "timed_out_platform =
     poll (initial_platform stale_data) (3, 0, Raise SenseAPITimeoutException)"

definition daily_usage :: Sense where
  "daily_usage = make_sensor ''Ab1'' (SENSOR_TYPES ! 1) ''usage''"

definition active_usage :: Sense where
  "active_usage = make_sensor ''Ab1'' (SENSOR_TYPES ! 0) ''usage''"

section \<open>Properties of the Sense platform\<close>

subsection \<open>The update calls\<close>

lemma invoke_error_log: "error_log (snd (invoke c now r w)) = error_log w"
  by (cases c; cases r)
     (simp_all add: update_active_def update_trends_def Throttle_def call_api_def
        split: option.split)

lemma invoke_fetch:
  assumes "api_calls (snd (invoke c now r w)) \<noteq> api_calls w"
  shows "(case r of Raise e \<Rightarrow> fst (invoke c now r w) = Some e
          | Return d \<Rightarrow> fst (invoke c now r w) = None \<and> data (snd (invoke c now r w)) = d)"
  using assms
  by (cases c; cases r)
     (simp_all add: update_active_def update_trends_def Throttle_def call_api_def
        split: option.splits if_splits)

lemma invoke_fetch_iff:
  "(api_calls (snd (invoke c now r w)) \<noteq> api_calls w) =
   (c = UpdateActive \<or>
    (case throttle w of None \<Rightarrow> True
     | Some last_call \<Rightarrow> MIN_TIME_BETWEEN_DAILY_UPDATES < now - last_call))"
  by (cases c; cases r)
     (simp_all add: update_active_def update_trends_def Throttle_def call_api_def
        split: option.split)

lemma invoke_no_fetch:
  "api_calls (snd (invoke c now r w)) = api_calls w \<Longrightarrow> snd (invoke c now r w) = w"
  by (cases c; cases r)
     (simp_all add: update_active_def update_trends_def Throttle_def call_api_def
        split: option.splits if_splits)

subsection \<open>What a poll leaves alone\<close>

lemma async_update_fixed:
  "name (fst (snd (async_update now r s w))) = name s"
  "unique_id (fst (snd (async_update now r s w))) = unique_id s"
  "unit_of_measurement (fst (snd (async_update now r s w))) = unit_of_measurement s"
  "sensor_type (fst (snd (async_update now r s w))) = sensor_type s"
  "update_sensor (fst (snd (async_update now r s w))) = update_sensor s"
  "is_production (fst (snd (async_update now r s w))) = is_production s"
  by (simp_all add: async_update_def split: prod.split option.split)

lemma async_update_available:
  "available s \<Longrightarrow> available (fst (snd (async_update now r s w)))"
  by (simp add: async_update_def split: prod.split option.split)

lemma poll_length: "length (entities (poll p ev)) = length (entities p)"
  by (simp add: poll_def split: prod.split)

lemma run_length: "length (entities (run p evs)) = length (entities p)"
  unfolding run_def by (induction evs arbitrary: p) (simp_all add: poll_length)

lemma poll_entity:
  "entities (poll p (i, now, r)) ! k =
     (if k = i \<and> i < length (entities p)
      then fst (snd (async_update now r (entities p ! i) (shared p)))
      else entities p ! k)"
  by (simp add: poll_def split: prod.split)

lemma poll_fixed:
  "name (entities (poll p ev) ! k) = name (entities p ! k)"
  "unique_id (entities (poll p ev) ! k) = unique_id (entities p ! k)"
  "unit_of_measurement (entities (poll p ev) ! k) = unit_of_measurement (entities p ! k)"
  "sensor_type (entities (poll p ev) ! k) = sensor_type (entities p ! k)"
  "update_sensor (entities (poll p ev) ! k) = update_sensor (entities p ! k)"
  "is_production (entities (poll p ev) ! k) = is_production (entities p ! k)"
  by (cases ev; simp add: poll_entity async_update_fixed)+

lemma run_fixed:
  "name (entities (run p evs) ! k) = name (entities p ! k)"
  "unique_id (entities (run p evs) ! k) = unique_id (entities p ! k)"
  "unit_of_measurement (entities (run p evs) ! k) = unit_of_measurement (entities p ! k)"
  "sensor_type (entities (run p evs) ! k) = sensor_type (entities p ! k)"
  "update_sensor (entities (run p evs) ! k) = update_sensor (entities p ! k)"
  "is_production (entities (run p evs) ! k) = is_production (entities p ! k)"
  unfolding run_def by (induction evs arbitrary: p; simp add: poll_fixed)+

lemma poll_available:
  "available (entities p ! k) \<Longrightarrow> available (entities (poll p ev) ! k)"
  by (cases ev) (auto simp add: poll_entity async_update_available)

lemma run_available:
  "available (entities p ! k) \<Longrightarrow> available (entities (run p evs) ! k)"
  unfolding run_def by (induction evs arbitrary: p) (simp_all add: poll_available)

subsection \<open>The throttle\<close>

lemma invoke_throttle_mono:
  assumes "throttle w = Some l"
  shows "\<exists>l'. throttle (snd (invoke c now r w)) = Some l' \<and> l \<le> l'"
  using assms
  by (cases c; cases r)
     (simp_all add: update_active_def update_trends_def Throttle_def call_api_def
        MIN_TIME_BETWEEN_DAILY_UPDATES_def)

lemma async_update_throttle:
  "throttle (snd (snd (async_update now r s w))) =
   throttle (snd (invoke (update_sensor s) now r w))"
  by (simp add: async_update_def split: prod.split option.split)

lemma async_update_api_calls:
  "api_calls (snd (snd (async_update now r s w))) =
   api_calls (snd (invoke (update_sensor s) now r w))"
  by (simp add: async_update_def split: prod.split option.split)

lemma poll_shared:
  "i < length (entities p) \<Longrightarrow>
   shared (poll p (i, now, r)) = snd (snd (async_update now r (entities p ! i) (shared p)))"
  by (simp add: poll_def split: prod.split)

lemma poll_throttle_mono:
  assumes "throttle (shared p) = Some l"
  shows "\<exists>l'. throttle (shared (poll p ev)) = Some l' \<and> l \<le> l'"
proof (cases ev)
  case (fields i now r)
  show ?thesis
  proof (cases "i < length (entities p)")
    case True
    show ?thesis
      using invoke_throttle_mono [OF assms]
      by (simp add: fields poll_shared [OF True] async_update_throttle)
  next
    case False
    then show ?thesis using assms fields by (simp add: poll_def)
  qed
qed

lemma run_throttle_mono:
  "throttle (shared p) = Some l \<Longrightarrow>
   \<exists>l'. throttle (shared (run p evs)) = Some l' \<and> l \<le> l'"
proof (induction evs arbitrary: p l)
  case Nil
  then show ?case by (simp add: run_def)
next
  case (Cons ev evs)
  obtain l1 where l1: "throttle (shared (poll p ev)) = Some l1" "l \<le> l1"
    using poll_throttle_mono [OF Cons.prems] by blast
  obtain l2 where "throttle (shared (run (poll p ev) evs)) = Some l2" "l1 \<le> l2"
    using Cons.IH [OF l1(1)] by blast
  with l1(2) show ?case by (auto simp add: run_def)
qed

lemma update_trends_fetch_throttle:
  "api_calls (snd (update_trends now r w)) \<noteq> api_calls w \<Longrightarrow>
   throttle (snd (update_trends now r w)) = Some now"
  by (cases r)
     (simp_all add: update_trends_def Throttle_def call_api_def
        split: option.splits if_splits)

lemma update_trends_throttled:
  "throttle w = Some l \<Longrightarrow> now - l \<le> MIN_TIME_BETWEEN_DAILY_UPDATES \<Longrightarrow>
   update_trends now r w = (None, w)"
  by (simp add: update_trends_def Throttle_def)

lemma update_active_fetches:
  "api_calls (snd (update_active now r w)) = api_calls w @ [(update_realtime, now)]"
  by (cases r) (simp_all add: update_active_def call_api_def)

lemma poll_api_calls:
  "i < length (entities p) \<Longrightarrow>
   api_calls (shared (poll p (i, now, r))) =
   api_calls (snd (invoke (update_sensor (entities p ! i)) now r (shared p)))"
  by (simp add: poll_shared async_update_api_calls)

lemma poll_throttle:
  "i < length (entities p) \<Longrightarrow>
   throttle (shared (poll p (i, now, r))) =
   throttle (snd (invoke (update_sensor (entities p ! i)) now r (shared p)))"
  by (simp add: poll_shared async_update_throttle)

subsection \<open>The entities of the setup\<close>

lemma make_sensor_wiring:
  "update_sensor (make_sensor m typ var) =
     (if sensor_type (make_sensor m typ var) = ACTIVE_TYPE then UpdateActive else UpdateTrends)"
  by (simp add: make_sensor_def Sense_init_def Let_def)

lemma setup_wiring:
  "s \<in> set (async_setup_entry d) \<Longrightarrow>
   update_sensor s = (if sensor_type s = ACTIVE_TYPE then UpdateActive else UpdateTrends)"
  by (auto simp add: async_setup_entry_def make_sensor_wiring)

lemma run_Nil: "run p [] = p"
  by (simp add: run_def)

lemma setup_starts_unavailable:
  "s \<in> set (async_setup_entry d) \<Longrightarrow> \<not> available s \<and> state s = StateNone"
  by (auto simp add: async_setup_entry_def make_sensor_def Sense_init_def Let_def)

subsection \<open>The unique ids\<close>

lemma lower_append: "lower (a @ b) = lower a @ lower b"
  by (simp add: lower_def)

lemma lower_names:
  "lower PRODUCTION_NAME = ''production''"
  "lower CONSUMPTION_NAME = ''usage''"
  by code_simp+

lemma SENSOR_VARIANTS_eq: "SENSOR_VARIANTS = [''production'', ''usage'']"
  by (simp add: SENSOR_VARIANTS_def lower_names)

lemma lower_suffixes:
  "lower ''-active-production'' = ''-active-production''"
  "lower ''-active-usage'' = ''-active-usage''"
  "lower ''-daily-production'' = ''-daily-production''"
  "lower ''-daily-usage'' = ''-daily-usage''"
  "lower ''-weekly-production'' = ''-weekly-production''"
  "lower ''-weekly-usage'' = ''-weekly-usage''"
  "lower ''-monthly-production'' = ''-monthly-production''"
  "lower ''-monthly-usage'' = ''-monthly-usage''"
  "lower ''-yearly-production'' = ''-yearly-production''"
  "lower ''-yearly-usage'' = ''-yearly-usage''"
  by code_simp+

lemma make_sensor_unique_id:
  "unique_id (make_sensor m typ var) = lower m @ lower (''-'' @ fst typ @ ''-'' @ var)"
  by (simp add: make_sensor_def Sense_init_def Let_def lower_append)

lemma setup_unique_ids:
  "map unique_id (async_setup_entry d) =
     map (\<lambda>sfx. lower (sense_monitor_id d) @ sfx)
       [''-active-production'', ''-active-usage'', ''-daily-production'', ''-daily-usage'',
        ''-weekly-production'', ''-weekly-usage'', ''-monthly-production'',
        ''-monthly-usage'', ''-yearly-production'', ''-yearly-usage'']"
  using lower_suffixes
  by (simp add: async_setup_entry_def SENSOR_TYPES_def SENSOR_VARIANTS_eq
      make_sensor_unique_id)

subsection \<open>The sample inputs, evaluated\<close>

lemma py_round_samples:
  "py_round (2469 / 2) = 1234"
  "py_round_ndigits (1 / 4) 1 = 1 / 5"
  "py_round_ndigits (1 / 4) (Suc 0) = 1 / 5"
  by code_simp+

lemma sample_update_facts:
  "fst (invoke (update_sensor active_usage) 0 (Return sample_data)
          (initial_world stale_data)) = None"
  "fst (invoke (update_sensor daily_usage) 0 (Return sample_data)
          (initial_world stale_data)) = None"
  "sensor_type active_usage = ACTIVE_TYPE"
  "is_production active_usage = False"
  "sensor_type daily_usage = ''DAY''"
  "is_production daily_usage = False"
  "api_calls (snd (snd (async_update 0 (Return sample_data) active_usage
          (initial_world stale_data)))) \<noteq> api_calls (initial_world stale_data)"
  "api_calls (snd (snd (async_update 0 (Return sample_data) daily_usage
          (initial_world stale_data)))) \<noteq> api_calls (initial_world stale_data)"
  "round_number (active_power sample_data) = 1234"
  "number_state (round_number_ndigits (get_trend sample_data ''DAY'' False) 1) =
     StateFloat (1 / 5)"
  "number_state (round_number_ndigits (get_trend sample_data ''DAY'' False) (Suc 0)) =
     StateFloat (1 / 5)"
  by code_simp+

lemma timed_out_platform_facts:
  "fst (invoke (update_sensor (entities timed_out_platform ! 3)) 100 (Return sample_data)
          (shared timed_out_platform)) = None"
  "fst (async_update 100 (Return sample_data) (entities timed_out_platform ! 3)
          (shared timed_out_platform)) = Returned"
  "api_calls (shared timed_out_platform) = [(update_trend_data, 0)]"
  "api_calls (snd (snd (async_update 100 (Return sample_data)
          (entities timed_out_platform ! 3) (shared timed_out_platform)))) =
     [(update_trend_data, 0)]"
  "state (fst (snd (async_update 100 (Return sample_data)
          (entities timed_out_platform ! 3) (shared timed_out_platform)))) = StateInt 0"
  "available (fst (snd (async_update 100 (Return sample_data)
          (entities timed_out_platform ! 3) (shared timed_out_platform)))) = True"
  "reading (entities timed_out_platform ! 3) sample_data = StateFloat (1 / 5)"
  "StateInt 0 \<noteq> StateFloat (1 / 5)"
  by code_simp+

lemma sample_exception_facts:
  "fst (invoke (update_sensor daily_usage) 0 (Raise SenseAPITimeoutException)
          (initial_world sample_data)) = Some SenseAPITimeoutException"
  "fst (invoke (update_sensor active_usage) 0 (Raise SenseAuthenticationException)
          (initial_world sample_data)) = Some SenseAuthenticationException"
  "state daily_usage = StateNone"
  "available daily_usage = False"
  "error_log (initial_world sample_data) = []"
  by code_simp+

lemma sample_platform_facts:
  "2 < length (entities (run (initial_platform sample_data) []))"
  "3 < length (entities (run (initial_platform sample_data) []))"
  "0 < length (entities (run (initial_platform sample_data) []))"
  "sensor_type (entities (run (initial_platform sample_data) []) ! 2) \<noteq> ACTIVE_TYPE"
  "sensor_type (entities (run (initial_platform sample_data) []) ! 3) \<noteq> ACTIVE_TYPE"
  "sensor_type (entities (run (initial_platform sample_data) []) ! 0) = ACTIVE_TYPE"
  "api_calls (shared (poll (run (initial_platform sample_data) []) (2, 0, Return sample_data)))
     \<noteq> api_calls (shared (run (initial_platform sample_data) []))"
  "api_calls (shared (run (initial_platform sample_data) [])) = []"
  by code_simp+

lemma sample_unit_facts:
  "3 < length (entities (initial_platform sample_data))"
  "unit_of_measurement (entities (initial_platform sample_data) ! 3) = ''kWh''"
  "name (entities (initial_platform sample_data) ! 3) = ''Daily Usage''"
  "unique_id (entities (initial_platform sample_data) ! 3) = ''ab1-daily-usage''"
  by code_simp+

lemma sample_availability_facts:
  "fst (invoke (update_sensor (entities (initial_platform sample_data) ! 3)) 0
      (Return sample_data) (shared (initial_platform sample_data))) = None"
  "available (entities (initial_platform sample_data) ! 3) = False"
  by code_simp+

lemma sample_unique_ids:
  "map unique_id (async_setup_entry sample_data) =
     [''ab1-active-production'', ''ab1-active-usage'', ''ab1-daily-production'',
      ''ab1-daily-usage'', ''ab1-weekly-production'', ''ab1-weekly-usage'',
      ''ab1-monthly-production'', ''ab1-monthly-usage'', ''ab1-yearly-production'',
      ''ab1-yearly-usage'']"
  by code_simp

subsection \<open>The claims about the Sense platform\<close>

text \<open>
  Claim C1.  When the update call of a Sense sensor raises the timeout of the external
  API, \<^verbatim>\<open>async_update\<close> returns normally, the entity is exactly as it was before
  the call (so are its state and its availability flag), and one error record is written
  to the log.
\<close>

theorem async_update_timeout_keeps_state:
  assumes "fst (invoke (update_sensor s) now r w) = Some SenseAPITimeoutException"
  shows "fst (async_update now r s w) = Returned \<and>
         fst (snd (async_update now r s w)) = s \<and>
         state (fst (snd (async_update now r s w))) = state s \<and>
         available (fst (snd (async_update now r s w))) = available s \<and>
         error_log (snd (snd (async_update now r s w))) =
           error_log w @ [''Timeout retrieving data'']"
proof -
  obtain w' where inv: "invoke (update_sensor s) now r w = (Some SenseAPITimeoutException, w')"
    using assms by (cases "invoke (update_sensor s) now r w") simp
  have "error_log w' = error_log w"
    using invoke_error_log [of "update_sensor s" now r w] inv by simp
  then show ?thesis
    by (simp add: async_update_def inv)
qed

theorem async_update_timeout_keeps_state_witness:
  "fst (invoke (update_sensor daily_usage) 0 (Raise SenseAPITimeoutException)
          (initial_world sample_data)) = Some SenseAPITimeoutException \<and>
   fst (async_update 0 (Raise SenseAPITimeoutException) daily_usage
          (initial_world sample_data)) = Returned \<and>
   state (fst (snd (async_update 0 (Raise SenseAPITimeoutException) daily_usage
          (initial_world sample_data)))) = StateNone \<and>
   available (fst (snd (async_update 0 (Raise SenseAPITimeoutException) daily_usage
          (initial_world sample_data)))) = False \<and>
   error_log (snd (snd (async_update 0 (Raise SenseAPITimeoutException) daily_usage
          (initial_world sample_data)))) = [''Timeout retrieving data'']"
  using async_update_timeout_keeps_state
    [OF sample_exception_facts(1)] sample_exception_facts
  by simp

text \<open>
  Claim C4, as stated, does not hold: a poll of a trend sensor that the throttle holds
  back makes no external call, does not raise, and still sets the state and the
  availability flag.  Below, the first poll of the daily usage sensor timed out at time
  0, so nothing was ever fetched.  The poll at time 100 makes no external call, returns,
  and publishes the state 0 of the empty \<^verbatim>\<open>data\<close> object with the flag true,
  while the reading that a fetch would have brought is 0.2.
\<close>

theorem async_update_success_state_counterexample:
  "fst (invoke (update_sensor (entities timed_out_platform ! 3)) 100 (Return sample_data)
          (shared timed_out_platform)) = None \<and>
   fst (async_update 100 (Return sample_data) (entities timed_out_platform ! 3)
          (shared timed_out_platform)) = Returned \<and>
   api_calls (shared timed_out_platform) = [(update_trend_data, 0)] \<and>
   api_calls (snd (snd (async_update 100 (Return sample_data)
          (entities timed_out_platform ! 3) (shared timed_out_platform)))) =
     [(update_trend_data, 0)] \<and>
   state (fst (snd (async_update 100 (Return sample_data)
          (entities timed_out_platform ! 3) (shared timed_out_platform)))) = StateInt 0 \<and>
   available (fst (snd (async_update 100 (Return sample_data)
          (entities timed_out_platform ! 3) (shared timed_out_platform)))) = True \<and>
   reading (entities timed_out_platform ! 3) sample_data = StateFloat (1 / 5) \<and>
   state (fst (snd (async_update 100 (Return sample_data)
          (entities timed_out_platform ! 3) (shared timed_out_platform)))) \<noteq>
     reading (entities timed_out_platform ! 3) sample_data"
proof -
  have differ: "state (fst (snd (async_update 100 (Return sample_data)
          (entities timed_out_platform ! 3) (shared timed_out_platform)))) \<noteq>
     reading (entities timed_out_platform ! 3) sample_data"
    unfolding timed_out_platform_facts(5) timed_out_platform_facts(7)
    by (rule timed_out_platform_facts(8))
  show ?thesis
    by (intro conjI timed_out_platform_facts(1-7) differ)
qed

text \<open>
  Claim C4, amended.  A Sense sensor has a name, a unit of measurement, an availability
  flag and a scalar state (the fields of the record).  When the update call does not
  raise, the state is the reading that the \<^verbatim>\<open>data\<close> object holds after the
  call: the active solar power or the active power rounded to an integer for a sensor of
  the active type, the trend value of the sensor's scale rounded to one decimal
  otherwise; and the availability flag is true.  An external call is made exactly when
  the sensor's update call is the unthrottled one, or the throttle lets the call through.
  When one is made, the reading is the one it fetched; when none is made, the
  \<^verbatim>\<open>data\<close> object is as it was before the update.
\<close>

theorem async_update_success_state:
  assumes "fst (invoke (update_sensor s) now r w) = None"
  shows "fst (async_update now r s w) = Returned \<and>
         state (fst (snd (async_update now r s w))) =
           (if sensor_type s = ACTIVE_TYPE then
              (if is_production s
               then StateInt (round_number
                      (active_solar_power (data (snd (snd (async_update now r s w))))))
               else StateInt (round_number
                      (active_power (data (snd (snd (async_update now r s w)))))))
            else number_state (round_number_ndigits
                   (get_trend (data (snd (snd (async_update now r s w))))
                      (sensor_type s) (is_production s)) 1)) \<and>
         available (fst (snd (async_update now r s w))) = True \<and>
         (api_calls (snd (snd (async_update now r s w))) \<noteq> api_calls w) =
           (update_sensor s = UpdateActive \<or>
            (case throttle w of None \<Rightarrow> True
             | Some last_call \<Rightarrow> MIN_TIME_BETWEEN_DAILY_UPDATES < now - last_call)) \<and>
         (api_calls (snd (snd (async_update now r s w))) \<noteq> api_calls w \<longrightarrow>
            r = Return (data (snd (snd (async_update now r s w))))) \<and>
         (api_calls (snd (snd (async_update now r s w))) = api_calls w \<longrightarrow>
            data (snd (snd (async_update now r s w))) = data w)"
proof -
  obtain w' where inv: "invoke (update_sensor s) now r w = (None, w')"
    using assms by (cases "invoke (update_sensor s) now r w") simp
  have fresh: "api_calls w' \<noteq> api_calls w \<longrightarrow> r = Return (data w')"
    using invoke_fetch [of "update_sensor s" now r w] inv
    by (cases r) auto
  have kept: "api_calls w' = api_calls w \<longrightarrow> data w' = data w"
    using invoke_no_fetch [of "update_sensor s" now r w] inv by auto
  have made: "(api_calls w' \<noteq> api_calls w) =
      (update_sensor s = UpdateActive \<or>
       (case throttle w of None \<Rightarrow> True
        | Some last_call \<Rightarrow> MIN_TIME_BETWEEN_DAILY_UPDATES < now - last_call))"
    using invoke_fetch_iff [of "update_sensor s" now r w] inv by simp
  have au: "async_update now r s w =
      (Returned, s\<lparr>state := reading s (data w'), available := True\<rparr>, w')"
    by (simp add: async_update_def inv)
  show ?thesis
    unfolding au using fresh kept made by (simp add: reading_def)
qed

theorem async_update_success_state_witness:
  "fst (invoke (update_sensor active_usage) 0 (Return sample_data)
          (initial_world stale_data)) = None \<and>
   state (fst (snd (async_update 0 (Return sample_data) active_usage
          (initial_world stale_data)))) = StateInt 1234 \<and>
   available (fst (snd (async_update 0 (Return sample_data) active_usage
          (initial_world stale_data)))) = True \<and>
   fst (invoke (update_sensor daily_usage) 0 (Return sample_data)
          (initial_world stale_data)) = None \<and>
   state (fst (snd (async_update 0 (Return sample_data) daily_usage
          (initial_world stale_data)))) = StateFloat (1 / 5) \<and>
   fst (invoke (update_sensor (entities timed_out_platform ! 3)) 100 (Return sample_data)
          (shared timed_out_platform)) = None \<and>
   data (snd (snd (async_update 100 (Return sample_data)
          (entities timed_out_platform ! 3) (shared timed_out_platform)))) =
     data (shared timed_out_platform)"
proof -
  note a = async_update_success_state [OF sample_update_facts(1)]
  note d = async_update_success_state [OF sample_update_facts(2)]
  note t = async_update_success_state [OF timed_out_platform_facts(1)]
  have da: "data (snd (snd (async_update 0 (Return sample_data) active_usage
          (initial_world stale_data)))) = sample_data"
    using a sample_update_facts(7) by simp
  have dd: "data (snd (snd (async_update 0 (Return sample_data) daily_usage
          (initial_world stale_data)))) = sample_data"
    using d sample_update_facts(8) by simp
  have sa: "state (fst (snd (async_update 0 (Return sample_data) active_usage
          (initial_world stale_data)))) = StateInt 1234"
    using a by (simp add: da sample_update_facts)
  have sd: "state (fst (snd (async_update 0 (Return sample_data) daily_usage
          (initial_world stale_data)))) = StateFloat (1 / 5)"
    using d by (simp add: dd sample_update_facts ACTIVE_TYPE_def)
  have av: "available (fst (snd (async_update 0 (Return sample_data) active_usage
          (initial_world stale_data)))) = True"
    using a by simp
  have dt: "data (snd (snd (async_update 100 (Return sample_data)
          (entities timed_out_platform ! 3) (shared timed_out_platform)))) =
     data (shared timed_out_platform)"
    using t timed_out_platform_facts(3,4) by simp
  show ?thesis
    by (intro conjI sample_update_facts(1) sa av sample_update_facts(2) sd
        timed_out_platform_facts(1) dt)
qed

text \<open>
  Claim C5.  An exception of the update call other than the timeout of the external API
  is not caught: it leaves \<^verbatim>\<open>async_update\<close>, the entity is untouched and nothing is
  logged.
\<close>

theorem async_update_other_exception_propagates:
  assumes "fst (invoke (update_sensor s) now r w) = Some e"
    and "e \<noteq> SenseAPITimeoutException"
  shows "fst (async_update now r s w) = Raised e \<and>
         fst (snd (async_update now r s w)) = s \<and>
         error_log (snd (snd (async_update now r s w))) = error_log w"
proof -
  obtain w' where inv: "invoke (update_sensor s) now r w = (Some e, w')"
    using assms(1) by (cases "invoke (update_sensor s) now r w") simp
  have "error_log w' = error_log w"
    using invoke_error_log [of "update_sensor s" now r w] inv by simp
  with assms(2) show ?thesis
    by (simp add: async_update_def inv)
qed

theorem async_update_other_exception_propagates_witness:
  "fst (invoke (update_sensor active_usage) 0 (Raise SenseAuthenticationException)
          (initial_world sample_data)) = Some SenseAuthenticationException \<and>
   SenseAuthenticationException \<noteq> SenseAPITimeoutException \<and>
   fst (async_update 0 (Raise SenseAuthenticationException) active_usage
          (initial_world sample_data)) = Raised SenseAuthenticationException \<and>
   fst (snd (async_update 0 (Raise SenseAuthenticationException) active_usage
          (initial_world sample_data))) = active_usage \<and>
   error_log (snd (snd (async_update 0 (Raise SenseAuthenticationException) active_usage
          (initial_world sample_data)))) = []"
  using async_update_other_exception_propagates
    [OF sample_exception_facts(2)] sample_exception_facts
  by simp

text \<open>
  Claim C7.  In any platform reached from the setup, let a trend sensor be polled at
  time \<^verbatim>\<open>t1\<close> and a trend sensor (the same or another) be polled at time
  \<^verbatim>\<open>t2\<close>, less than 300 seconds after \<^verbatim>\<open>t1\<close>, with any polls in between.
  If the first poll made an external call, the second makes none.  A poll of a sensor of
  the active type always makes the external realtime call.
\<close>

theorem trend_updates_throttled:
  assumes i: "i < length (entities p)" "sensor_type (entities p ! i) \<noteq> ACTIVE_TYPE"
    and j: "j < length (entities p)" "sensor_type (entities p ! j) \<noteq> ACTIVE_TYPE"
    and k: "k < length (entities p)" "sensor_type (entities p ! k) = ACTIVE_TYPE"
    and p: "p = run (initial_platform d) evs0"
    and near: "t2 - t1 < MIN_TIME_BETWEEN_DAILY_UPDATES"
  shows "(api_calls (shared (poll p (i, t1, r1))) \<noteq> api_calls (shared p) \<longrightarrow>
          api_calls (shared (poll (run (poll p (i, t1, r1)) evs) (j, t2, r2))) =
          api_calls (shared (run (poll p (i, t1, r1)) evs))) \<and>
         api_calls (shared (poll p (k, t, r))) =
           api_calls (shared p) @ [(update_realtime, t)]"
proof -
  have len: "length (entities p) = length (async_setup_entry d)"
    by (simp add: p run_length initial_platform_def)
  have wired: "update_sensor (entities p ! n) =
      (if sensor_type (entities p ! n) = ACTIVE_TYPE then UpdateActive else UpdateTrends)"
    if "n < length (entities p)" for n
  proof -
    have "async_setup_entry d ! n \<in> set (async_setup_entry d)"
      using that len by simp
    from setup_wiring [OF this] show ?thesis
      by (simp add: p run_fixed initial_platform_def)
  qed
  let ?p1 = "poll p (i, t1, r1)"
  let ?p2 = "run ?p1 evs"
  have ui: "update_sensor (entities p ! i) = UpdateTrends"
    using wired [OF i(1)] i(2) by simp
  have uj: "update_sensor (entities ?p2 ! j) = UpdateTrends"
    using wired [OF j(1)] j(2) by (simp add: run_fixed poll_fixed)
  have uk: "update_sensor (entities p ! k) = UpdateActive"
    using wired [OF k(1)] k(2) by simp
  have lenj: "j < length (entities ?p2)"
    using j(1) by (simp add: run_length poll_length)
  have second: "api_calls (shared (poll ?p2 (j, t2, r2))) = api_calls (shared ?p2)"
    if fetched: "api_calls (shared ?p1) \<noteq> api_calls (shared p)"
  proof -
    have "throttle (shared ?p1) = Some t1"
      using fetched update_trends_fetch_throttle [of t1 r1 "shared p"]
      by (simp add: poll_api_calls [OF i(1)] poll_throttle [OF i(1)] ui)
    then obtain l where l: "throttle (shared ?p2) = Some l" "t1 \<le> l"
      using run_throttle_mono by blast
    have "t2 - l \<le> MIN_TIME_BETWEEN_DAILY_UPDATES"
      using near l(2) by simp
    from update_trends_throttled [OF l(1) this]
    show ?thesis
      by (simp add: poll_api_calls [OF lenj] uj)
  qed
  have active: "api_calls (shared (poll p (k, t, r))) =
      api_calls (shared p) @ [(update_realtime, t)]"
    by (simp add: poll_api_calls [OF k(1)] uk update_active_fetches)
  from second active show ?thesis by blast
qed

theorem trend_updates_throttled_witness:
  "api_calls (shared (poll (run (initial_platform sample_data) []) (2, 0, Return sample_data)))
     \<noteq> api_calls (shared (run (initial_platform sample_data) [])) \<and>
   (299 :: rat) - 0 < MIN_TIME_BETWEEN_DAILY_UPDATES \<and>
   api_calls (shared (poll (run (poll (run (initial_platform sample_data) [])
        (2, 0, Return sample_data)) [(0, 100, Return sample_data)])
        (3, 299, Return sample_data))) =
   api_calls (shared (run (poll (run (initial_platform sample_data) [])
        (2, 0, Return sample_data)) [(0, 100, Return sample_data)])) \<and>
   api_calls (shared (poll (run (initial_platform sample_data) []) (0, 5, Return sample_data))) =
     [(update_realtime, 5)]"
proof -
  have near: "(299 :: rat) - 0 < MIN_TIME_BETWEEN_DAILY_UPDATES"
    by (simp add: MIN_TIME_BETWEEN_DAILY_UPDATES_def)
  note t = trend_updates_throttled [OF sample_platform_facts(1) sample_platform_facts(4)
      sample_platform_facts(2) sample_platform_facts(5) sample_platform_facts(3)
      sample_platform_facts(6) refl near,
      where ?r1.0 = "Return sample_data" and evs = "[(0, 100, Return sample_data)]"
        and ?r2.0 = "Return sample_data" and t = 5 and r = "Return sample_data"]
  show ?thesis
    using t near sample_platform_facts(7,8) by simp
qed

text \<open>
  Claim C8.  The constructor sets the unit to \<^verbatim>\<open>POWER_WATT\<close> exactly when the
  sensor type is \<^verbatim>\<open>ACTIVE_TYPE\<close>, and to \<^verbatim>\<open>ENERGY_KILO_WATT_HOUR\<close>
  exactly when it is not.  Neither \<^verbatim>\<open>async_update\<close>, however it ends, nor any
  sequence of polls of the platform changes the unit, the name or the unique id of an
  entity.
\<close>

theorem sense_unit_fixed_by_type:
  assumes "k < length (entities p)"
  shows "(unit_of_measurement (Sense_init nm styp is_prod upd sid uid) = POWER_WATT) =
           (styp = ACTIVE_TYPE) \<and>
         (unit_of_measurement (Sense_init nm styp is_prod upd sid uid) = ENERGY_KILO_WATT_HOUR) =
           (styp \<noteq> ACTIVE_TYPE) \<and>
         unit_of_measurement (fst (snd (async_update now r s w))) = unit_of_measurement s \<and>
         name (fst (snd (async_update now r s w))) = name s \<and>
         unique_id (fst (snd (async_update now r s w))) = unique_id s \<and>
         unit_of_measurement (entities (run p evs) ! k) = unit_of_measurement (entities p ! k) \<and>
         name (entities (run p evs) ! k) = name (entities p ! k) \<and>
         unique_id (entities (run p evs) ! k) = unique_id (entities p ! k)"
  by (simp add: Sense_init_def POWER_WATT_def ENERGY_KILO_WATT_HOUR_def
      async_update_fixed run_fixed)

theorem sense_unit_fixed_by_type_witness:
  "3 < length (entities (initial_platform sample_data)) \<and>
   unit_of_measurement (Sense_init ''Energy'' ''active'' False UpdateActive ''usage'' ''ab1-active-usage'') = POWER_WATT \<and>
   unit_of_measurement (Sense_init ''Daily'' ''DAY'' False UpdateTrends ''usage'' ''ab1-daily-usage'') = ENERGY_KILO_WATT_HOUR \<and>
   unit_of_measurement (entities (run (initial_platform sample_data)
      [(3, 0, Return sample_data), (3, 400, Raise SenseAPITimeoutException)]) ! 3) = ''kWh'' \<and>
   name (entities (run (initial_platform sample_data)
      [(3, 0, Return sample_data), (3, 400, Raise SenseAPITimeoutException)]) ! 3) = ''Daily Usage'' \<and>
   unique_id (entities (run (initial_platform sample_data)
      [(3, 0, Return sample_data), (3, 400, Raise SenseAPITimeoutException)]) ! 3) = ''ab1-daily-usage''"
  using sense_unit_fixed_by_type [OF sample_unit_facts(1),
      where nm = "''Energy''" and styp = "''active''" and is_prod = False
      and upd = UpdateActive and sid = "''usage''" and uid = "''ab1-active-usage''"]
    sense_unit_fixed_by_type [OF sample_unit_facts(1),
      where nm = "''Daily''" and styp = "''DAY''" and is_prod = False
      and upd = UpdateTrends and sid = "''usage''" and uid = "''ab1-daily-usage''"
      and evs = "[(3, 0, Return sample_data), (3, 400, Raise SenseAPITimeoutException)]"]
  by (simp add: sample_unit_facts ACTIVE_TYPE_def)

text \<open>
  Claim C9.  \<^verbatim>\<open>async_setup_entry\<close> creates ten entities, one for each of the five
  sensor types with each of the two variants, in the order of the two loops.  Their
  unique ids are the lowercased strings \<^verbatim>\<open>{monitor_id}-{type_id}-{variant}\<close>, and
  they are pairwise distinct.
\<close>

theorem setup_creates_ten_distinct_sensors:
  "length (async_setup_entry d) = 10 \<and>
   map (\<lambda>s. (sensor_type s, is_production s)) (async_setup_entry d) =
     [(''active'', True), (''active'', False), (''DAY'', True), (''DAY'', False),
      (''WEEK'', True), (''WEEK'', False), (''MONTH'', True), (''MONTH'', False),
      (''YEAR'', True), (''YEAR'', False)] \<and>
   map unique_id (async_setup_entry d) =
     map (\<lambda>(type_id, var). lower (sense_monitor_id d @ ''-'' @ type_id @ ''-'' @ var))
       (List.product [''active'', ''daily'', ''weekly'', ''monthly'', ''yearly'']
          [''production'', ''usage'']) \<and>
   distinct (map unique_id (async_setup_entry d))"
proof -
  have len: "length (async_setup_entry d) = 10"
    by (simp add: async_setup_entry_def SENSOR_TYPES_def SENSOR_VARIANTS_eq)
  have kinds: "map (\<lambda>s. (sensor_type s, is_production s)) (async_setup_entry d) =
     [(''active'', True), (''active'', False), (''DAY'', True), (''DAY'', False),
      (''WEEK'', True), (''WEEK'', False), (''MONTH'', True), (''MONTH'', False),
      (''YEAR'', True), (''YEAR'', False)]"
    by (simp add: async_setup_entry_def SENSOR_TYPES_def SENSOR_VARIANTS_eq
        make_sensor_def Sense_init_def Let_def lower_names ACTIVE_TYPE_def)
  have ids: "map unique_id (async_setup_entry d) =
     map (\<lambda>(type_id, var). lower (sense_monitor_id d @ ''-'' @ type_id @ ''-'' @ var))
       (List.product [''active'', ''daily'', ''weekly'', ''monthly'', ''yearly'']
          [''production'', ''usage''])"
    using lower_suffixes by (simp add: setup_unique_ids lower_append)
  have dist: "distinct (map unique_id (async_setup_entry d))"
    unfolding setup_unique_ids by simp
  from len kinds ids dist show ?thesis by blast
qed

theorem setup_creates_ten_distinct_sensors_witness:
  "length (async_setup_entry sample_data) = 10 \<and>
   map unique_id (async_setup_entry sample_data) =
     [''ab1-active-production'', ''ab1-active-usage'', ''ab1-daily-production'',
      ''ab1-daily-usage'', ''ab1-weekly-production'', ''ab1-weekly-usage'',
      ''ab1-monthly-production'', ''ab1-monthly-usage'', ''ab1-yearly-production'',
      ''ab1-yearly-usage''] \<and>
   distinct (map unique_id (async_setup_entry sample_data))"
proof -
  have len: "length (async_setup_entry sample_data) = 10"
    and dist: "distinct (map unique_id (async_setup_entry sample_data))"
    using setup_creates_ten_distinct_sensors [of sample_data] by blast+
  show ?thesis
    by (intro conjI len dist sample_unique_ids)
qed

text \<open>
  Claim C10.  A new Sense sensor is unavailable and has no state, and so is every entity
  of the setup.  An \<^verbatim>\<open>async_update\<close> whose update call does not raise makes the
  sensor available; a timeout leaves the flag as it was; and a sensor that is available
  stays available, through one \<^verbatim>\<open>async_update\<close> and through any sequence of
  polls of the platform.
\<close>

theorem sense_availability_monotone:
  assumes "k < length (entities p)"
  shows "available (Sense_init nm styp is_prod upd sid uid) = False \<and>
         state (Sense_init nm styp is_prod upd sid uid) = StateNone \<and>
         (\<forall>x \<in> set (async_setup_entry d). available x = False \<and> state x = StateNone) \<and>
         (fst (invoke (update_sensor s) now r w) = None \<longrightarrow>
            available (fst (snd (async_update now r s w)))) \<and>
         (fst (invoke (update_sensor s) now r w) = Some SenseAPITimeoutException \<longrightarrow>
            available (fst (snd (async_update now r s w))) = available s) \<and>
         (available s \<longrightarrow> available (fst (snd (async_update now r s w)))) \<and>
         (available (entities p ! k) \<longrightarrow> available (entities (run p evs) ! k)) \<and>
         (fst (invoke (update_sensor (entities p ! k)) now r (shared p)) = None \<longrightarrow>
            available (entities (run (poll p (k, now, r)) evs) ! k))"
proof -
  have init: "available (Sense_init nm styp is_prod upd sid uid) = False \<and>
      state (Sense_init nm styp is_prod upd sid uid) = StateNone"
    by (simp add: Sense_init_def Let_def)
  have unavail: "\<forall>x \<in> set (async_setup_entry d). available x = False \<and> state x = StateNone"
    using setup_starts_unavailable by blast
  have ok: "available (fst (snd (async_update now' r' s' w')))"
    if "fst (invoke (update_sensor s') now' r' w') = None" for now' r' s' w'
    using that by (cases "invoke (update_sensor s') now' r' w'") (simp add: async_update_def)
  have timeout: "available (fst (snd (async_update now r s w))) = available s"
    if "fst (invoke (update_sensor s) now r w) = Some SenseAPITimeoutException"
    using that by (cases "invoke (update_sensor s) now r w") (simp add: async_update_def)
  have polled: "available (entities (run (poll p (k, now, r)) evs) ! k)"
    if "fst (invoke (update_sensor (entities p ! k)) now r (shared p)) = None"
  proof -
    have "available (entities (poll p (k, now, r)) ! k)"
      using assms ok [OF that] by (simp add: poll_entity)
    then show ?thesis by (rule run_available)
  qed
  from init unavail ok timeout polled show ?thesis
    by (simp add: async_update_available run_available)
qed

theorem sense_availability_monotone_witness:
  "3 < length (entities (initial_platform sample_data)) \<and>
   available (entities (initial_platform sample_data) ! 3) = False \<and>
   fst (invoke (update_sensor (entities (initial_platform sample_data) ! 3)) 0
      (Return sample_data) (shared (initial_platform sample_data))) = None \<and>
   available (entities (run (poll (initial_platform sample_data) (3, 0, Return sample_data))
      [(3, 400, Raise SenseAPITimeoutException),
       (3, 800, Raise SenseAuthenticationException)]) ! 3)"
  using sense_availability_monotone [OF sample_unit_facts(1),
      where evs = "[(3, 400, Raise SenseAPITimeoutException),
        (3, 800, Raise SenseAuthenticationException)]"
      and now = 0 and r = "Return sample_data"]
    sample_unit_facts(1) sample_availability_facts
  by blast

section \<open>Properties of the Reddit platform\<close>

lemma validate_config_invalid:
  "conf_sort_by c = Some mode \<Longrightarrow> mode \<notin> set LIST_TYPES \<Longrightarrow>
   validate_config c = Inl (InvalidSortBy mode)"
  by (simp add: validate_config_def Let_def)

lemma sample_reddit_facts:
  "conf_sort_by INVALID_SORT_BY_CONFIG = Some ''invalid_sort_by''"
  "''invalid_sort_by'' \<notin> set LIST_TYPES"
  by code_simp+

lemma configured_state_entry:
  assumes "sub \<in> set subs"
  shows "map_of
           (map (\<lambda>x. state_entry (RedditSensor_update reddit (RedditSensor_init x lmt mode)))
              subs)
           (''sensor.reddit_'' @ sub) =
         Some (snd (state_entry (RedditSensor_update reddit (RedditSensor_init sub lmt mode))))"
  using assms
proof (induction subs)
  case Nil
  then show ?case by simp
next
  case (Cons x subs)
  have key: "fst (state_entry (RedditSensor_update reddit (RedditSensor_init x lmt mode))) =
      ''sensor.reddit_'' @ x"
    by (simp add: state_entry_def entity_id_def RedditSensor_name_def
        RedditSensor_update_def RedditSensor_init_def split: option.split)
  show ?case
  proof (cases "x = sub")
    case True
    then show ?thesis
      using key by (cases "state_entry (RedditSensor_update reddit
        (RedditSensor_init x lmt mode))") simp
  next
    case False
    then have "sub \<in> set subs"
      using Cons.prems by simp
    from Cons.IH [OF this] False key show ?thesis
      by (cases "state_entry (RedditSensor_update reddit
        (RedditSensor_init x lmt mode))") simp
  qed
qed

lemma sample_setup_facts:
  "validate_config VALID_CONFIG = Inr (''hot'', 10)"
  "''worldnews'' \<in> set (conf_subreddits VALID_CONFIG)"
  "''news'' \<in> set (conf_subreddits VALID_CONFIG)"
  "conf_sort_by VALID_CONFIG = None"
  "MockPraw ''worldnews'' ''hot'' = Some (return_data MOCK_RESULTS)"
  "MockPraw ''news'' ''hot'' = Some (return_data MOCK_RESULTS)"
  "return_data MOCK_RESULTS 10 = MOCK_RESULTS"
  "length MOCK_RESULTS = 2"
  "MOCK_RESULTS_LENGTH = 2"
  "map post_of_submission MOCK_RESULTS =
     [[(ATTR_ID, PyInt 0), (ATTR_URL, PyStr ''http://example.com/1''),
       (ATTR_TITLE, PyStr ''example1''), (ATTR_SCORE, PyStr ''1''),
       (ATTR_COMMENTS_NUMBER, PyStr ''1''), (ATTR_CREATED, PyStr ''''),
       (ATTR_BODY, PyStr ''example1 selftext'')],
      [(ATTR_ID, PyInt 1), (ATTR_URL, PyStr ''http://example.com/2''),
       (ATTR_TITLE, PyStr ''example2''), (ATTR_SCORE, PyStr ''2''),
       (ATTR_COMMENTS_NUMBER, PyStr ''2''), (ATTR_CREATED, PyStr ''''),
       (ATTR_BODY, PyStr ''example2 selftext'')]]"
  by (simp_all add: validate_config_def VALID_CONFIG_def DEFAULT_SORT_BY_def
      DEFAULT_MAXIMUM_def LIST_TYPES_def MockPraw_def MockSubreddit_def return_data_def
      MOCK_RESULTS_def MOCK_RESULTS_LENGTH_def post_of_submission_def)

lemma sample_listing_facts:
  "MockPraw (subreddit (RedditSensor_init ''news'' 1 ''new'')) (sort_by (RedditSensor_init ''news'' 1 ''new''))
     = Some (return_data MOCK_RESULTS)"
  "limit (RedditSensor_init ''news'' 1 ''new'') = 1"
  "return_data MOCK_RESULTS 1 = [MOCK_RESULTS ! 0]"
  "post_of_submission (MOCK_RESULTS ! 0) =
     [(ATTR_ID, PyInt 0), (ATTR_URL, PyStr ''http://example.com/1''),
      (ATTR_TITLE, PyStr ''example1''), (ATTR_SCORE, PyStr ''1''),
      (ATTR_COMMENTS_NUMBER, PyStr ''1''), (ATTR_CREATED, PyStr ''''),
      (ATTR_BODY, PyStr ''example1 selftext'')]"
  by (simp_all add: MockPraw_def MockSubreddit_def RedditSensor_init_def return_data_def
      MOCK_RESULTS_def post_of_submission_def)

subsection \<open>The claims about the Reddit platform\<close>

text \<open>
  Claim C2.  A configuration whose sort mode is not one of the recognized modes is
  rejected by the setup: no entity is created, and the state machine has no entry for
  the entity of any subreddit.
\<close>

theorem reddit_invalid_sort_by_rejected:
  assumes "conf_sort_by c = Some mode" and "mode \<notin> set LIST_TYPES"
  shows "setup_platform reddit c = Inl (InvalidSortBy mode) \<and>
         setup_component reddit c = [] \<and>
         states_get (setup_component reddit c) (''sensor.reddit_'' @ sub) = None"
  using validate_config_invalid [OF assms]
  by (simp add: setup_platform_def setup_component_def states_get_def)

theorem reddit_invalid_sort_by_rejected_witness:
  "conf_sort_by INVALID_SORT_BY_CONFIG = Some ''invalid_sort_by'' \<and>
   ''invalid_sort_by'' \<notin> set LIST_TYPES \<and>
   setup_platform MockPraw INVALID_SORT_BY_CONFIG = Inl (InvalidSortBy ''invalid_sort_by'') \<and>
   setup_component MockPraw INVALID_SORT_BY_CONFIG = [] \<and>
   states_get (setup_component MockPraw INVALID_SORT_BY_CONFIG) ''sensor.reddit_worldnews'' = None"
  using reddit_invalid_sort_by_rejected [OF sample_reddit_facts, of MockPraw "''worldnews''",
      unfolded append.simps]
    sample_reddit_facts
  by blast

text \<open>
  Claim C3.  A post is exposed as a dictionary with exactly the seven attributes id,
  url, title, score, number of comments, creation time and body, whose values are the
  fields \<^verbatim>\<open>id\<close>, \<^verbatim>\<open>url\<close>, \<^verbatim>\<open>title\<close>, \<^verbatim>\<open>score\<close>,
  \<^verbatim>\<open>num_comments\<close>, \<^verbatim>\<open>created\<close> and \<^verbatim>\<open>selftext\<close> of the library's
  response, unchanged; and a poll exposes every post of the listing the library returns,
  in the order of the listing.
\<close>

theorem reddit_post_copied:
  "map fst (post_of_submission s) =
     [ATTR_ID, ATTR_URL, ATTR_TITLE, ATTR_SCORE, ATTR_COMMENTS_NUMBER, ATTR_CREATED, ATTR_BODY] \<and>
   map snd (post_of_submission s) =
     [id' s, url s, title s, score s, num_comments s, created s, selftext s] \<and>
   map_of (post_of_submission s) =
     (\<lambda>a. Some (case a of ATTR_ID \<Rightarrow> id' s | ATTR_URL \<Rightarrow> url s | ATTR_TITLE \<Rightarrow> title s
        | ATTR_SCORE \<Rightarrow> score s | ATTR_COMMENTS_NUMBER \<Rightarrow> num_comments s
        | ATTR_CREATED \<Rightarrow> created s | ATTR_BODY \<Rightarrow> selftext s)) \<and>
   (reddit (subreddit e) (sort_by e) = Some listing \<longrightarrow>
      subreddit_data (RedditSensor_update reddit e) =
        map post_of_submission (listing (limit e)))"
proof -
  have m: "map_of (post_of_submission s) a =
     Some (case a of ATTR_ID \<Rightarrow> id' s | ATTR_URL \<Rightarrow> url s | ATTR_TITLE \<Rightarrow> title s
        | ATTR_SCORE \<Rightarrow> score s | ATTR_COMMENTS_NUMBER \<Rightarrow> num_comments s
        | ATTR_CREATED \<Rightarrow> created s | ATTR_BODY \<Rightarrow> selftext s)" for a
    by (cases a) (simp_all add: post_of_submission_def)
  have "map_of (post_of_submission s) =
     (\<lambda>a. Some (case a of ATTR_ID \<Rightarrow> id' s | ATTR_URL \<Rightarrow> url s | ATTR_TITLE \<Rightarrow> title s
        | ATTR_SCORE \<Rightarrow> score s | ATTR_COMMENTS_NUMBER \<Rightarrow> num_comments s
        | ATTR_CREATED \<Rightarrow> created s | ATTR_BODY \<Rightarrow> selftext s))"
    by (rule ext) (rule m)
  then show ?thesis
    by (simp add: post_of_submission_def RedditSensor_update_def)
qed

theorem reddit_post_copied_witness:
  "MockPraw (subreddit (RedditSensor_init ''news'' 1 ''new''))
     (sort_by (RedditSensor_init ''news'' 1 ''new'')) = Some (return_data MOCK_RESULTS) \<and>
   subreddit_data (RedditSensor_update MockPraw (RedditSensor_init ''news'' 1 ''new'')) =
     [[(ATTR_ID, PyInt 0), (ATTR_URL, PyStr ''http://example.com/1''),
       (ATTR_TITLE, PyStr ''example1''), (ATTR_SCORE, PyStr ''1''),
       (ATTR_COMMENTS_NUMBER, PyStr ''1''), (ATTR_CREATED, PyStr ''''),
       (ATTR_BODY, PyStr ''example1 selftext'')]]"
  using reddit_post_copied [of _ MockPraw "RedditSensor_init ''news'' 1 ''new''"
      "return_data MOCK_RESULTS"]
    sample_listing_facts
  by simp

text \<open>
  Claim C6.  For every library and every configuration that passes the validity check,
  the setup gives each configured subreddit an entity whose state is the number of posts
  the library returned for it, whose subreddit attribute is the name of the subreddit,
  whose posts are the returned posts in order, each as the dictionary of its seven
  attributes, and whose sort mode is the configured one, or \<^verbatim>\<open>hot\<close> when the
  configuration names none.  With the mocked response of two posts and the valid
  configuration of the test module this is the state 2, the first post equal to the
  expected dictionary and the sort mode \<^verbatim>\<open>hot\<close>, for both subreddits.
\<close>

theorem reddit_valid_setup:
  assumes "validate_config c = Inr (mode, lmt)"
    and "sub \<in> set (conf_subreddits c)"
  shows "states_get (setup_component reddit c) (''sensor.reddit_'' @ sub) =
           Some \<lparr>state_of =
                   length (case reddit sub mode of None \<Rightarrow> []
                           | Some listing \<Rightarrow> listing lmt),
                 attr_subreddit = sub,
                 attr_posts =
                   map post_of_submission
                     (case reddit sub mode of None \<Rightarrow> []
                      | Some listing \<Rightarrow> listing lmt),
                 attr_sort_by = mode\<rparr> \<and>
         mode = (case conf_sort_by c of None \<Rightarrow> ''hot'' | Some m \<Rightarrow> m) \<and>
         mode \<in> set LIST_TYPES"
proof -
  have entry: "states_get (setup_component reddit c) (''sensor.reddit_'' @ sub) =
      Some (snd (state_entry (RedditSensor_update reddit (RedditSensor_init sub lmt mode))))"
    using configured_state_entry [OF assms(2)]
    by (simp add: states_get_def setup_component_def setup_platform_def assms(1) comp_def)
  have snd_entry: "snd (state_entry (RedditSensor_update reddit (RedditSensor_init sub lmt mode))) =
      \<lparr>state_of =
         length (case reddit sub mode of None \<Rightarrow> [] | Some listing \<Rightarrow> listing lmt),
       attr_subreddit = sub,
       attr_posts =
         map post_of_submission
           (case reddit sub mode of None \<Rightarrow> [] | Some listing \<Rightarrow> listing lmt),
       attr_sort_by = mode\<rparr>"
    by (simp add: state_entry_def RedditSensor_state_def RedditSensor_update_def
        RedditSensor_init_def split: option.split)
  have mode: "mode = (case conf_sort_by c of None \<Rightarrow> ''hot'' | Some m \<Rightarrow> m) \<and>
      mode \<in> set LIST_TYPES"
    using assms(1)
    by (auto simp add: validate_config_def Let_def DEFAULT_SORT_BY_def
        split: if_splits option.splits)
  from entry [unfolded snd_entry] mode show ?thesis by blast
qed

theorem reddit_valid_setup_witness:
  "validate_config VALID_CONFIG = Inr (''hot'', 10) \<and>
   ''worldnews'' \<in> set (conf_subreddits VALID_CONFIG) \<and>
   ''news'' \<in> set (conf_subreddits VALID_CONFIG) \<and>
   conf_sort_by VALID_CONFIG = None \<and>
   MOCK_RESULTS_LENGTH = 2 \<and>
   states_get (setup_component MockPraw VALID_CONFIG) ''sensor.reddit_worldnews'' =
     Some \<lparr>state_of = 2, attr_subreddit = ''worldnews'',
           attr_posts =
             [[(ATTR_ID, PyInt 0), (ATTR_URL, PyStr ''http://example.com/1''),
               (ATTR_TITLE, PyStr ''example1''), (ATTR_SCORE, PyStr ''1''),
               (ATTR_COMMENTS_NUMBER, PyStr ''1''), (ATTR_CREATED, PyStr ''''),
               (ATTR_BODY, PyStr ''example1 selftext'')],
              [(ATTR_ID, PyInt 1), (ATTR_URL, PyStr ''http://example.com/2''),
               (ATTR_TITLE, PyStr ''example2''), (ATTR_SCORE, PyStr ''2''),
               (ATTR_COMMENTS_NUMBER, PyStr ''2''), (ATTR_CREATED, PyStr ''''),
               (ATTR_BODY, PyStr ''example2 selftext'')]],
           attr_sort_by = ''hot''\<rparr> \<and>
   states_get (setup_component MockPraw VALID_CONFIG) ''sensor.reddit_news'' =
     Some \<lparr>state_of = 2, attr_subreddit = ''news'',
           attr_posts =
             [[(ATTR_ID, PyInt 0), (ATTR_URL, PyStr ''http://example.com/1''),
               (ATTR_TITLE, PyStr ''example1''), (ATTR_SCORE, PyStr ''1''),
               (ATTR_COMMENTS_NUMBER, PyStr ''1''), (ATTR_CREATED, PyStr ''''),
               (ATTR_BODY, PyStr ''example1 selftext'')],
              [(ATTR_ID, PyInt 1), (ATTR_URL, PyStr ''http://example.com/2''),
               (ATTR_TITLE, PyStr ''example2''), (ATTR_SCORE, PyStr ''2''),
               (ATTR_COMMENTS_NUMBER, PyStr ''2''), (ATTR_CREATED, PyStr ''''),
               (ATTR_BODY, PyStr ''example2 selftext'')]],
           attr_sort_by = ''hot''\<rparr>"
proof -
  note w = reddit_valid_setup [OF sample_setup_facts(1) sample_setup_facts(2), of MockPraw,
      unfolded append.simps]
  note n = reddit_valid_setup [OF sample_setup_facts(1) sample_setup_facts(3), of MockPraw,
      unfolded append.simps]
  have sw: "states_get (setup_component MockPraw VALID_CONFIG) ''sensor.reddit_worldnews'' =
     Some \<lparr>state_of = 2, attr_subreddit = ''worldnews'',
           attr_posts = map post_of_submission MOCK_RESULTS, attr_sort_by = ''hot''\<rparr>"
    using w by (simp add: sample_setup_facts(5,7,8))
  have sn: "states_get (setup_component MockPraw VALID_CONFIG) ''sensor.reddit_news'' =
     Some \<lparr>state_of = 2, attr_subreddit = ''news'',
           attr_posts = map post_of_submission MOCK_RESULTS, attr_sort_by = ''hot''\<rparr>"
    using n by (simp add: sample_setup_facts(6,7,8))
  show ?thesis
    by (intro conjI sample_setup_facts(1-4) sample_setup_facts(9)
        sw [unfolded sample_setup_facts(10)] sn [unfolded sample_setup_facts(10)])
qed

end
